theory Spec2Isabelle
  imports Main
begin

section \<open>Python values, exceptions and dictionaries\<close>

text \<open>
  The values that travel through the keyword arguments of
  \<^verbatim>\<open>VecoForTokenClassification._instantiate\<close>: \<^verbatim>\<open>None\<close>, booleans, integers, strings
  and dictionaries. A dictionary is its list of items in insertion order, as Python
  iterates it.
\<close>

datatype pyval =
    PNone
  | PBool bool
  | PInt int
  | PStr string
  | PDict "(pyval \<times> pyval) list"

text \<open>
  The exceptions the file's own expressions can raise (\<^verbatim>\<open>x.items()\<close> or
  \<^verbatim>\<open>config.name_or_path\<close> on a value without that attribute, an unhashable dictionary key,
  \<^verbatim>\<open>len\<close> of an unsized value), and any other exception of a collaborator.
\<close>

datatype exn = AttributeError | TypeError | OtherError string

text \<open>Keyword arguments: a dictionary whose keys are strings.\<close>

type_synonym kwargs = "(string \<times> pyval) list"

text \<open>\<^verbatim>\<open>kwargs.get(key, default)\<close>\<close>

definition kwargs_get :: "(string \<times> 'v) list \<Rightarrow> string \<Rightarrow> 'v \<Rightarrow> 'v" where
  "kwargs_get kw k dflt = (case map_of kw k of None \<Rightarrow> dflt | Some v \<Rightarrow> v)"

text \<open>\<^verbatim>\<open>kwargs.pop(key, None)\<close>: the dictionary that is left.\<close>

definition kwargs_pop :: "string \<Rightarrow> (string \<times> 'v) list \<Rightarrow> (string \<times> 'v) list" where
  "kwargs_pop k kw = filter (\<lambda>p. fst p \<noteq> k) kw"

text \<open>\<^verbatim>\<open>kwargs[key] = value\<close>: an existing key keeps its place, a new key goes last.\<close>

fun kwargs_setitem :: "string \<Rightarrow> 'v \<Rightarrow> (string \<times> 'v) list \<Rightarrow> (string \<times> 'v) list" where
  "kwargs_setitem k v [] = [(k, v)]"
| "kwargs_setitem k v ((k', v') # ps) =
     (if k' = k then (k', v) # ps else (k', v') # kwargs_setitem k v ps)"

text \<open>
  Dictionary keys are compared with \<^verbatim>\<open>==\<close> (and hashed accordingly): \<^verbatim>\<open>True == 1\<close> and
  \<^verbatim>\<open>False == 0\<close>, every other pair of hashable values of this model is equal only to
  itself. A dictionary is not hashable.
\<close>

fun hashable :: "pyval \<Rightarrow> bool" where
  "hashable (PDict d) = False"
| "hashable v = True"

fun hash_key :: "pyval \<Rightarrow> pyval" where
  "hash_key (PBool b) = PInt (if b then 1 else 0)"
| "hash_key v = v"

text \<open>\<^verbatim>\<open>d[k] = v\<close> on a dictionary: an equal key keeps its place and its key object.\<close>

fun dict_setitem :: "pyval \<Rightarrow> pyval \<Rightarrow> (pyval \<times> pyval) list \<Rightarrow> (pyval \<times> pyval) list" where
  "dict_setitem k v [] = [(k, v)]"
| "dict_setitem k v ((k', v') # ps) =
     (if hash_key k' = hash_key k then (k', v) # ps else (k', v') # dict_setitem k v ps)"

text \<open>\<^verbatim>\<open>x.items()\<close>: only a dictionary has the method.\<close>

definition items :: "pyval \<Rightarrow> exn + (pyval \<times> pyval) list" where
  "items x = (case x of PDict d \<Rightarrow> Inr d | _ \<Rightarrow> Inl AttributeError)"

text \<open>
  The comprehension \<^verbatim>\<open>{b: a for a, b in ps}\<close>, written twice in the source
  (\<^verbatim>\<open>{id: label for label, id in label2id.items()}\<close> and
  \<^verbatim>\<open>{label: id for id, label in id2label.items()}\<close>): the pairs are inserted one after the
  other into the dictionary built so far; an unhashable key raises.
\<close>

fun swap_comprehension ::
  "(pyval \<times> pyval) list \<Rightarrow> (pyval \<times> pyval) list \<Rightarrow> exn + (pyval \<times> pyval) list" where
  "swap_comprehension acc [] = Inr acc"
| "swap_comprehension acc ((a, b) # ps) =
     (if hashable b then swap_comprehension (dict_setitem b a acc) ps else Inl TypeError)"

definition invert_dict :: "pyval \<Rightarrow> exn + pyval" where
  "invert_dict x =
     (case items x of
        Inl e \<Rightarrow> Inl e
      | Inr ps \<Rightarrow> (case swap_comprehension [] ps of Inl e \<Rightarrow> Inl e | Inr d \<Rightarrow> Inr (PDict d)))"

text \<open>\<^verbatim>\<open>len(x)\<close>\<close>

definition py_len :: "pyval \<Rightarrow> exn + pyval" where
  "py_len x =
     (case x of
        PDict d \<Rightarrow> Inr (PInt (int (length d)))
      | PStr s \<Rightarrow> Inr (PInt (int (length s)))
      | _ \<Rightarrow> Inl TypeError)"

section \<open>The collaborators\<close>

text \<open>
  Everything the class delegates to lives outside the file and is a parameter here:
  the label-mapping parser, the configuration class, the attribute \<^verbatim>\<open>name_or_path\<close> of a
  configuration (\<open>None\<close> when the configuration has no such attribute), the two ancestor
  initialisers reached by \<^verbatim>\<open>super().__init__\<close> and \<^verbatim>\<open>super(Model, self).__init__\<close>, and the
  checkpoint loader reached by \<^verbatim>\<open>super(Model, cls).from_pretrained\<close>. Each returns a value or
  raises.
\<close>

record ('cfg, 'self) externals =
  parse_label_mapping :: "pyval \<Rightarrow> exn + pyval"
  VecoConfig :: "kwargs \<Rightarrow> exn + 'cfg"
  name_or_path :: "'cfg \<Rightarrow> pyval option"
  new_object :: "'self"
  TorchModel_init :: "'self \<Rightarrow> pyval \<Rightarrow> kwargs \<Rightarrow> exn + 'self"
  Roberta_init :: "'self \<Rightarrow> 'cfg \<Rightarrow> exn + 'self"
  from_pretrained :: "pyval \<Rightarrow> kwargs \<Rightarrow> exn + 'self"

text \<open>The delegated calls a method makes, in the order it makes them.\<close>

datatype 'cfg call =
    ParseLabelMapping pyval
  | VecoConfigCall kwargs
  | TorchModelInit pyval kwargs
  | RobertaInit 'cfg
  | FromPretrained pyval kwargs

section \<open>\<^verbatim>\<open>VecoForTokenClassification.__init__\<close>\<close>

text \<open>
  \<^verbatim>\<open>
  def __init__(self, config, **kwargs):
      super().__init__(config.name_or_path, **kwargs)
      super(Model, self).__init__(config)
  \<close>
\<close>

definition veco_init ::
  "('cfg, 'self) externals \<Rightarrow> 'self \<Rightarrow> 'cfg \<Rightarrow> kwargs \<Rightarrow> 'cfg call list \<times> (exn + 'self)" where
  "veco_init X self config kwargs =
     (case name_or_path X config of
        None \<Rightarrow> ([], Inl AttributeError)
      | Some p \<Rightarrow>
          (case TorchModel_init X self p kwargs of
             Inl e \<Rightarrow> ([TorchModelInit p kwargs], Inl e)
           | Inr self1 \<Rightarrow>
               (case Roberta_init X self1 config of
                  Inl e \<Rightarrow> ([TorchModelInit p kwargs, RobertaInit config], Inl e)
                | Inr self2 \<Rightarrow> ([TorchModelInit p kwargs, RobertaInit config], Inr self2))))"

section \<open>\<^verbatim>\<open>VecoForTokenClassification.forward\<close>\<close>

text \<open>
  The arguments of the inference call are tensors, flags and \<^verbatim>\<open>None\<close>; the result of the
  parent's \<^verbatim>\<open>forward\<close> under \<^verbatim>\<open>return_dict=True\<close> is an object with the four attributes read
  below, and \<^verbatim>\<open>AttentionTokenClassificationModelOutput\<close> is built from four keyword arguments.
\<close>

datatype 't arg = ANone | ABool bool | ATensor 't

record 'v parent_output =
  outputs_loss :: 'v
  outputs_logits :: 'v
  outputs_hidden_states :: 'v
  outputs_attentions :: 'v

record 'v AttentionTokenClassificationModelOutput =
  loss :: 'v
  logits :: 'v
  hidden_states :: 'v
  attentions :: 'v

datatype 't forward_call = RobertaForward "'t arg list" "(string \<times> 't arg) list"

text \<open>
  \<^verbatim>\<open>
  def forward(self, *args, **kwargs):
      kwargs['return_dict'] = True
      outputs = super(Model, self).forward(*args, **kwargs)
      return AttentionTokenClassificationModelOutput(
          loss=outputs.loss, logits=outputs.logits,
          hidden_states=outputs.hidden_states, attentions=outputs.attentions)
  \<close>
\<close>

definition forward ::
  "('t arg list \<Rightarrow> (string \<times> 't arg) list \<Rightarrow> exn + 'v parent_output) \<Rightarrow>
   't arg list \<Rightarrow> (string \<times> 't arg) list \<Rightarrow>
   't forward_call list \<times> (exn + 'v AttentionTokenClassificationModelOutput)" where
  "forward parent_forward args kwargs =
     (let kwargs1 = kwargs_setitem ''return_dict'' (ABool True) kwargs in
      case parent_forward args kwargs1 of
        Inl e \<Rightarrow> ([RobertaForward args kwargs1], Inl e)
      | Inr outputs \<Rightarrow>
          ([RobertaForward args kwargs1],
           Inr \<lparr>loss = outputs_loss outputs,
                logits = outputs_logits outputs,
                hidden_states = outputs_hidden_states outputs,
                attentions = outputs_attentions outputs\<rparr>))"

section \<open>\<^verbatim>\<open>VecoForTokenClassification._instantiate\<close>\<close>

text \<open>
  Lines 88 to 104, after \<^verbatim>\<open>parse_label_mapping(model_dir)\<close> has returned \<open>parsed\<close>:
  \<^verbatim>\<open>
  model_kwargs = {}
  label2id = kwargs.get('label2id', parsed)
  id2label = kwargs.get(
      'id2label', None if label2id is None else
      {id: label for label, id in label2id.items()})
  if id2label is not None and label2id is None:
      label2id = {label: id for id, label in id2label.items()}
  num_labels = kwargs.get(
      'num_labels', None if label2id is None else len(label2id))
  if num_labels is not None:
      model_kwargs['num_labels'] = num_labels
  if label2id is not None:
      model_kwargs['label2id'] = label2id
  if id2label is not None:
      model_kwargs['id2label'] = id2label
  \<close>
  The default of each \<^verbatim>\<open>kwargs.get\<close> is evaluated before the lookup, whether the key is
  present or not.
\<close>

definition model_kwargs_of :: "pyval \<Rightarrow> kwargs \<Rightarrow> exn + kwargs" where
  "model_kwargs_of parsed kwargs =
     (let model_kwargs = [];
          label2id = kwargs_get kwargs ''label2id'' parsed
      in case (if label2id = PNone then Inr PNone else invert_dict label2id) of
           Inl e \<Rightarrow> Inl e
         | Inr dflt_id2label \<Rightarrow>
             (let id2label = kwargs_get kwargs ''id2label'' dflt_id2label
              in case (if id2label \<noteq> PNone \<and> label2id = PNone
                       then invert_dict id2label else Inr label2id) of
                   Inl e \<Rightarrow> Inl e
                 | Inr label2id1 \<Rightarrow>
                     (case (if label2id1 = PNone then Inr PNone else py_len label2id1) of
                        Inl e \<Rightarrow> Inl e
                      | Inr dflt_num_labels \<Rightarrow>
                          (let num_labels = kwargs_get kwargs ''num_labels'' dflt_num_labels;
                               model_kwargs1 =
                                 (if num_labels \<noteq> PNone
                                  then kwargs_setitem ''num_labels'' num_labels model_kwargs
                                  else model_kwargs);
                               model_kwargs2 =
                                 (if label2id1 \<noteq> PNone
                                  then kwargs_setitem ''label2id'' label2id1 model_kwargs1
                                  else model_kwargs1);
                               model_kwargs3 =
                                 (if id2label \<noteq> PNone
                                  then kwargs_setitem ''id2label'' id2label model_kwargs2
                                  else model_kwargs2)
                           in Inr model_kwargs3))))"

text \<open>
  \<^verbatim>\<open>
  model_dir = kwargs.pop('model_dir', None)
  if model_dir is None:
      config = VecoConfig(**kwargs)
      model = cls(config)
  else:
      ...
      model = super(Model, cls).from_pretrained(
          pretrained_model_name_or_path=model_dir, **model_kwargs)
  return model
  \<close>
  \<^verbatim>\<open>cls(config)\<close> creates the object and runs \<^verbatim>\<open>__init__(self, config)\<close> on it.
\<close>

definition instantiate ::
  "('cfg, 'self) externals \<Rightarrow> kwargs \<Rightarrow> 'cfg call list \<times> (exn + 'self)" where
  "instantiate X kwargs0 =
     (let model_dir = kwargs_get kwargs0 ''model_dir'' PNone;
          kwargs = kwargs_pop ''model_dir'' kwargs0
      in if model_dir = PNone then
           (case VecoConfig X kwargs of
              Inl e \<Rightarrow> ([VecoConfigCall kwargs], Inl e)
            | Inr config \<Rightarrow>
                (case veco_init X (new_object X) config [] of
                   (calls, model) \<Rightarrow> (VecoConfigCall kwargs # calls, model)))
         else
           (case parse_label_mapping X model_dir of
              Inl e \<Rightarrow> ([ParseLabelMapping model_dir], Inl e)
            | Inr parsed \<Rightarrow>
                (case model_kwargs_of parsed kwargs of
                   Inl e \<Rightarrow> ([ParseLabelMapping model_dir], Inl e)
                 | Inr model_kwargs \<Rightarrow>
                     ([ParseLabelMapping model_dir, FromPretrained model_dir model_kwargs],
                      from_pretrained X model_dir model_kwargs))))"

section \<open>Vocabulary of the properties\<close>

text \<open>
  \<open>e\<close> is the exact inverse of \<open>d\<close>: its items are the items of \<open>d\<close>, each one turned
  around, no more and no fewer.
\<close>

definition exact_inverse :: "(pyval \<times> pyval) list \<Rightarrow> (pyval \<times> pyval) list \<Rightarrow> bool" where
  "exact_inverse d e = (set e = (\<lambda>p. (snd p, fst p)) ` set d)"

text \<open>The items of a dictionary turned around one by one, in the same order.\<close>

definition swapped :: "(pyval \<times> pyval) list \<Rightarrow> (pyval \<times> pyval) list" where
  "swapped d = map (\<lambda>p. (snd p, fst p)) d"

text \<open>The keys, respectively the values, of a list of items, as dictionary lookup sees them.\<close>

definition key_ids :: "(pyval \<times> pyval) list \<Rightarrow> pyval list" where
  "key_ids d = map (\<lambda>p. hash_key (fst p)) d"

definition value_ids :: "(pyval \<times> pyval) list \<Rightarrow> pyval list" where
  "value_ids d = map (\<lambda>p. hash_key (snd p)) d"

text \<open>What every Python dictionary satisfies: hashable keys, no two of them equal.\<close>

definition is_dict :: "(pyval \<times> pyval) list \<Rightarrow> bool" where
  "is_dict d = (list_all (\<lambda>p. hashable (fst p)) d \<and> distinct (key_ids d))"

text \<open>\<^verbatim>\<open>d.get(k)\<close> for a hashable \<open>k\<close>: lookup compares keys with \<^verbatim>\<open>==\<close>.\<close>

definition dict_get :: "(pyval \<times> pyval) list \<Rightarrow> pyval \<Rightarrow> pyval option" where
  "dict_get d k = map_of (map (\<lambda>p. (hash_key (fst p), snd p)) d) (hash_key k)"

text \<open>The label of the last item of \<open>d\<close>, in iteration order, whose id equals \<open>i\<close>.\<close>

definition last_label_of :: "pyval \<Rightarrow> (pyval \<times> pyval) list \<Rightarrow> pyval option" where
  "last_label_of i d = map_of (map (\<lambda>p. (hash_key (snd p), fst p)) (rev d)) (hash_key i)"

text \<open>The calls that consult the checkpoint directory.\<close>

fun consults_checkpoint :: "'cfg call \<Rightarrow> bool" where
  "consults_checkpoint (ParseLabelMapping d) = True"
| "consults_checkpoint (FromPretrained d kw) = True"
| "consults_checkpoint c = False"

text \<open>
  A concrete set of collaborators for the examples: the configuration is the keyword
  dictionary it was built from, an object is the list of initialisers that ran on it, the
  directory holds no label mapping, and nothing raises.
\<close>

definition example_externals :: "(kwargs, string list) externals" where
  "example_externals =
     \<lparr>parse_label_mapping = (\<lambda>d. Inr PNone),
      VecoConfig = (\<lambda>kw. Inr kw),
      name_or_path = (\<lambda>cfg. map_of cfg ''name_or_path''),
      new_object = [],
      TorchModel_init = (\<lambda>self p kw. Inr (self @ [''TorchModel''])),
      Roberta_init = (\<lambda>self cfg. Inr (self @ [''RobertaForTokenClassification''])),
      from_pretrained = (\<lambda>d kw. Inr [''from_pretrained''])\<rparr>"

text \<open>A parent \<^verbatim>\<open>forward\<close> for the examples: it answers with the tensors 1 to 4.\<close>

definition example_parent_forward ::
  "nat arg list \<Rightarrow> (string \<times> nat arg) list \<Rightarrow> exn + nat parent_output" where
  "example_parent_forward args kw =
     Inr \<lparr>outputs_loss = 1, outputs_logits = 2, outputs_hidden_states = 3,
          outputs_attentions = 4\<rparr>"

section \<open>Facts about the dictionary operations\<close>

lemma swap_comprehension_fold:
  "list_all (\<lambda>p. hashable (snd p)) ps \<Longrightarrow>
   swap_comprehension acc ps = Inr (fold (\<lambda>p. dict_setitem (snd p) (fst p)) ps acc)"
  by (induction acc ps rule: swap_comprehension.induct) auto

lemma key_ids_dict_setitem:
  "key_ids (dict_setitem k v acc) =
     (if hash_key k \<in> set (key_ids acc) then key_ids acc else key_ids acc @ [hash_key k])"
proof (induction acc)
  case Nil
  then show ?case by (simp add: key_ids_def)
next
  case (Cons p acc)
  then show ?case by (cases p) (force simp: key_ids_def)
qed

lemma dict_setitem_fresh:
  "hash_key k \<notin> set (key_ids acc) \<Longrightarrow> dict_setitem k v acc = acc @ [(k, v)]"
  by (induction acc) (auto simp: key_ids_def)

lemma fold_setitem_injective:
  "distinct (key_ids acc @ value_ids ps) \<Longrightarrow>
   fold (\<lambda>p. dict_setitem (snd p) (fst p)) ps acc = acc @ swapped ps"
proof (induction ps arbitrary: acc)
  case Nil
  then show ?case by (simp add: swapped_def)
next
  case (Cons p ps)
  have fresh: "hash_key (snd p) \<notin> set (key_ids acc)"
    using Cons.prems by (auto simp: value_ids_def)
  have "distinct (key_ids (acc @ [(snd p, fst p)]) @ value_ids ps)"
    using Cons.prems by (auto simp: value_ids_def key_ids_def)
  then show ?case
    using Cons.IH [of "acc @ [(snd p, fst p)]"] fresh
    by (simp add: dict_setitem_fresh swapped_def)
qed

lemma invert_dict_injective:
  assumes "list_all (\<lambda>p. hashable (snd p)) d" and "distinct (value_ids d)"
  shows "invert_dict (PDict d) = Inr (PDict (swapped d))"
  using assms fold_setitem_injective [of "[]" d]
  by (simp add: invert_dict_def items_def swap_comprehension_fold key_ids_def)

lemma exact_inverse_swapped: "exact_inverse d (swapped d)"
  by (simp add: exact_inverse_def swapped_def)

lemma map_of_kwargs_pop:
  "k \<noteq> k' \<Longrightarrow> map_of (kwargs_pop k' kw) k = map_of kw k"
  by (induction kw) (auto simp: kwargs_pop_def)

lemma kwargs_get_pop:
  "k \<noteq> k' \<Longrightarrow> kwargs_get (kwargs_pop k' kw) k dflt = kwargs_get kw k dflt"
  by (simp add: kwargs_get_def map_of_kwargs_pop)

lemma set_kwargs_pop:
  "set (kwargs_pop k kw) = {p \<in> set kw. fst p \<noteq> k}"
  by (auto simp: kwargs_pop_def)

lemma kwargs_pop_absent:
  "map_of kw k = None \<Longrightarrow> kwargs_pop k kw = kw"
  by (induction kw) (auto simp: kwargs_pop_def split: if_splits)

lemma map_of_kwargs_setitem:
  "map_of (kwargs_setitem k v kw) = (map_of kw)(k \<mapsto> v)"
  by (induction kw) (auto simp: fun_eq_iff)

lemma kwargs_get_Some: "map_of kw k = Some v \<Longrightarrow> kwargs_get kw k dflt = v"
  by (simp add: kwargs_get_def)

lemma kwargs_get_None: "map_of kw k = None \<Longrightarrow> kwargs_get kw k dflt = dflt"
  by (simp add: kwargs_get_def)

lemma instantiate_with_dir:
  assumes "kwargs_get kw ''model_dir'' PNone = md" and "md \<noteq> PNone"
    and "parse_label_mapping X md = Inr parsed"
    and "model_kwargs_of parsed (kwargs_pop ''model_dir'' kw) = Inr mk"
  shows "instantiate X kw =
           ([ParseLabelMapping md, FromPretrained md mk], from_pretrained X md mk)"
  using assms by (simp add: instantiate_def)

lemma model_kwargs_of_label2id_only:
  assumes "map_of kw ''label2id'' = Some (PDict d)"
    and "map_of kw ''id2label'' = None"
    and "map_of kw ''num_labels'' = None"
    and "invert_dict (PDict d) = Inr (PDict e)"
  shows "model_kwargs_of parsed kw =
           Inr [(''num_labels'', PInt (int (length d))), (''label2id'', PDict d),
                (''id2label'', PDict e)]"
  using assms by (simp add: model_kwargs_of_def kwargs_get_def py_len_def)

lemma model_kwargs_of_id2label_only:
  assumes "kwargs_get kw ''label2id'' PNone = PNone"
    and "map_of kw ''id2label'' = Some (PDict e)"
    and "invert_dict (PDict e) = Inr (PDict d)"
  shows "\<exists>mk. model_kwargs_of PNone kw = Inr mk
           \<and> map_of mk ''label2id'' = Some (PDict d)
           \<and> map_of mk ''id2label'' = Some (PDict e)"
  using assms
  by (simp add: model_kwargs_of_def kwargs_get_Some py_len_def Let_def map_of_kwargs_setitem)

lemma invert_dict_round_trip:
  assumes "is_dict e" and "list_all (\<lambda>p. hashable (snd p)) e" and "distinct (value_ids e)"
  shows "invert_dict (PDict (swapped e)) = Inr (PDict e)"
proof -
  have "list_all (\<lambda>p. hashable (snd p)) (swapped e)"
    using assms(1) by (simp add: is_dict_def swapped_def list_all_iff)
  moreover have "distinct (value_ids (swapped e))"
    using assms(1) by (simp add: is_dict_def swapped_def value_ids_def key_ids_def comp_def)
  ultimately have "invert_dict (PDict (swapped e)) = Inr (PDict (swapped (swapped e)))"
    by (rule invert_dict_injective)
  then show ?thesis by (simp add: swapped_def comp_def)
qed

lemma dict_get_setitem:
  "dict_get (dict_setitem k v acc) k' =
     (if hash_key k' = hash_key k then Some v else dict_get acc k')"
  by (induction acc) (auto simp: dict_get_def)

lemma last_label_of_Cons:
  "last_label_of i (p # ps) =
     (case last_label_of i ps of
        Some l \<Rightarrow> Some l
      | None \<Rightarrow> (if hash_key i = hash_key (snd p) then Some (fst p) else None))"
  by (simp add: last_label_of_def map_add_def split: option.splits)

lemma dict_get_fold:
  "dict_get (fold (\<lambda>p. dict_setitem (snd p) (fst p)) ps acc) i =
     (case last_label_of i ps of Some l \<Rightarrow> Some l | None \<Rightarrow> dict_get acc i)"
proof (induction ps arbitrary: acc)
  case Nil
  then show ?case by (simp add: last_label_of_def)
next
  case (Cons p ps)
  then show ?case
    by (simp add: last_label_of_Cons dict_get_setitem split: option.splits)
qed

lemma set_key_ids_fold:
  "set (key_ids (fold (\<lambda>p. dict_setitem (snd p) (fst p)) ps acc)) =
     set (key_ids acc) \<union> set (value_ids ps)"
proof (induction ps arbitrary: acc)
  case Nil
  then show ?case by (simp add: value_ids_def)
next
  case (Cons p ps)
  have "set (key_ids (dict_setitem (snd p) (fst p) acc)) =
          insert (hash_key (snd p)) (set (key_ids acc))"
    by (auto simp: key_ids_dict_setitem)
  with Cons.IH [of "dict_setitem (snd p) (fst p) acc"] show ?case
    by (auto simp: value_ids_def)
qed

lemma distinct_key_ids_fold:
  "distinct (key_ids acc) \<Longrightarrow>
   distinct (key_ids (fold (\<lambda>p. dict_setitem (snd p) (fst p)) ps acc))"
proof (induction ps arbitrary: acc)
  case Nil
  then show ?case by simp
next
  case (Cons p ps)
  have "distinct (key_ids (dict_setitem (snd p) (fst p) acc))"
    using Cons.prems by (simp add: key_ids_dict_setitem)
  then show ?case using Cons.IH by simp
qed

lemma fewer_keys_than_items:
  assumes "distinct (key_ids e)" and "set (key_ids e) = set (value_ids d)"
    and "\<not> distinct (value_ids d)"
  shows "length e < length d"
proof -
  have "card (set (key_ids e)) = length (key_ids e)"
    using assms(1) by (rule distinct_card)
  then have "length e = card (set (key_ids e))"
    by (simp add: key_ids_def)
  also have "\<dots> = card (set (value_ids d))"
    using assms(2) by simp
  also have "\<dots> < length (value_ids d)"
    using assms(3) card_length [of "value_ids d"] card_distinct [of "value_ids d"]
    by (cases "card (set (value_ids d)) = length (value_ids d)") auto
  finally show ?thesis by (simp add: value_ids_def)
qed

lemma model_kwargs_of_explicit_label2id:
  "map_of kw ''label2id'' = Some l \<Longrightarrow> model_kwargs_of p kw = model_kwargs_of p' kw"
  by (simp add: model_kwargs_of_def kwargs_get_Some)

lemma forward_call:
  "fst (forward parent_forward args kw) =
     [RobertaForward args (kwargs_setitem ''return_dict'' (ABool True) kw)]"
  by (simp add: forward_def Let_def split: sum.splits)

lemma forward_error:
  "parent_forward args (kwargs_setitem ''return_dict'' (ABool True) kw) = Inl e \<Longrightarrow>
   forward parent_forward args kw =
     ([RobertaForward args (kwargs_setitem ''return_dict'' (ABool True) kw)], Inl e)"
  by (simp add: forward_def Let_def)

lemma veco_init_no_checkpoint:
  "list_all (\<lambda>c. \<not> consults_checkpoint c) (fst (veco_init X self config kw))"
  by (simp add: veco_init_def split: option.splits sum.splits)

lemma instantiate_without_dir:
  assumes "kwargs_get kw ''model_dir'' PNone = PNone"
  shows "instantiate X kw =
     (case VecoConfig X (kwargs_pop ''model_dir'' kw) of
        Inl e \<Rightarrow> ([VecoConfigCall (kwargs_pop ''model_dir'' kw)], Inl e)
      | Inr config \<Rightarrow>
          (VecoConfigCall (kwargs_pop ''model_dir'' kw)
             # fst (veco_init X (new_object X) config []),
           snd (veco_init X (new_object X) config [])))"
  using assms by (simp add: instantiate_def Let_def split: sum.splits prod.splits)

lemma loader_call_is_last:
  assumes "FromPretrained d mk \<in> set (fst (instantiate X kw))"
  shows "fst (instantiate X kw) = [ParseLabelMapping d, FromPretrained d mk]
         \<and> snd (instantiate X kw) = from_pretrained X d mk"
proof (cases "kwargs_get kw ''model_dir'' PNone = PNone")
  case True
  have "list_all (\<lambda>c. \<not> consults_checkpoint c) (fst (instantiate X kw))"
    using veco_init_no_checkpoint [of X]
    by (simp add: instantiate_without_dir [OF True] split: sum.splits)
  with assms show ?thesis by (auto simp: list_all_iff)
next
  case False
  with assms show ?thesis
    by (auto simp: instantiate_def Let_def split: sum.splits)
qed

section \<open>The properties\<close>

text \<open>
  Claim C1, as the code has it. A call with a model directory, an explicit \<^verbatim>\<open>label2id\<close>
  dictionary \<open>d\<close> whose ids are hashable and pairwise different, and neither \<^verbatim>\<open>id2label\<close> nor
  \<^verbatim>\<open>num_labels\<close> among the keyword arguments: once the label-mapping parser has returned
  (its result is not used), the loader is called with the directory and exactly three
  keywords, \<^verbatim>\<open>num_labels\<close> the number of items of \<open>d\<close>, \<^verbatim>\<open>label2id\<close> the dictionary \<open>d\<close>
  itself and \<^verbatim>\<open>id2label\<close> the items of \<open>d\<close> turned around, which is the exact inverse
  of \<open>d\<close>; the factory returns what the loader returns.
\<close>

theorem label2id_only_injective:
  assumes "kwargs_get kw ''model_dir'' PNone = md" and "md \<noteq> PNone"
    and "parse_label_mapping X md = Inr parsed"
    and "map_of kw ''label2id'' = Some (PDict d)"
    and "map_of kw ''id2label'' = None"
    and "map_of kw ''num_labels'' = None"
    and "list_all (\<lambda>p. hashable (snd p)) d"
    and "distinct (value_ids d)"
  shows "instantiate X kw =
           ([ParseLabelMapping md,
             FromPretrained md
               [(''num_labels'', PInt (int (length d))), (''label2id'', PDict d),
                (''id2label'', PDict (swapped d))]],
            from_pretrained X md
               [(''num_labels'', PInt (int (length d))), (''label2id'', PDict d),
                (''id2label'', PDict (swapped d))])
         \<and> exact_inverse d (swapped d)"
proof -
  have "invert_dict (PDict d) = Inr (PDict (swapped d))"
    using assms(7,8) by (rule invert_dict_injective)
  then have "model_kwargs_of parsed (kwargs_pop ''model_dir'' kw) =
     Inr [(''num_labels'', PInt (int (length d))), (''label2id'', PDict d),
          (''id2label'', PDict (swapped d))]"
    using assms(4-6) by (intro model_kwargs_of_label2id_only) (simp_all add: map_of_kwargs_pop)
  with assms(1-3) have "instantiate X kw =
           ([ParseLabelMapping md,
             FromPretrained md
               [(''num_labels'', PInt (int (length d))), (''label2id'', PDict d),
                (''id2label'', PDict (swapped d))]],
            from_pretrained X md
               [(''num_labels'', PInt (int (length d))), (''label2id'', PDict d),
                (''id2label'', PDict (swapped d))])"
    by (rule instantiate_with_dir)
  then show ?thesis by (simp add: exact_inverse_swapped)
qed

text \<open>The theorem of C1 at a two-label mapping.\<close>

theorem label2id_only_injective_witness:
  "instantiate example_externals
          [(''model_dir'', PStr ''ckpt''),
           (''label2id'', PDict [(PStr ''O'', PInt 0), (PStr ''B-PER'', PInt 1)])] =
     ([ParseLabelMapping (PStr ''ckpt''),
      FromPretrained (PStr ''ckpt'')
        [(''num_labels'', PInt 2),
         (''label2id'', PDict [(PStr ''O'', PInt 0), (PStr ''B-PER'', PInt 1)]),
         (''id2label'', PDict [(PInt 0, PStr ''O''), (PInt 1, PStr ''B-PER'')])]],
      Inr [''from_pretrained''])
   \<and> exact_inverse [(PStr ''O'', PInt 0), (PStr ''B-PER'', PInt 1)]
        [(PInt 0, PStr ''O''), (PInt 1, PStr ''B-PER'')]"
  using label2id_only_injective [of "[(''model_dir'', PStr ''ckpt''),
           (''label2id'', PDict [(PStr ''O'', PInt 0), (PStr ''B-PER'', PInt 1)])]"
      "PStr ''ckpt''" example_externals PNone "[(PStr ''O'', PInt 0), (PStr ''B-PER'', PInt 1)]"]
  by (simp add: kwargs_get_def example_externals_def value_ids_def swapped_def)

text \<open>Claim C1 as stated, for every explicit \<^verbatim>\<open>label2id\<close>, fails when two labels share an id:
  for \<^verbatim>\<open>{'a': 0, 'b': 0}\<close> the loader receives \<^verbatim>\<open>id2label = {0: 'b'}\<close>, which does not
  map id 0 back to label \<^verbatim>\<open>'a'\<close>.\<close>

theorem label2id_only_not_inverse:
  "fst (instantiate example_externals
          [(''model_dir'', PStr ''ckpt''),
           (''label2id'', PDict [(PStr ''a'', PInt 0), (PStr ''b'', PInt 0)])]) =
     [ParseLabelMapping (PStr ''ckpt''),
      FromPretrained (PStr ''ckpt'')
        [(''num_labels'', PInt 2),
         (''label2id'', PDict [(PStr ''a'', PInt 0), (PStr ''b'', PInt 0)]),
         (''id2label'', PDict [(PInt 0, PStr ''b'')])]]
   \<and> \<not> exact_inverse [(PStr ''a'', PInt 0), (PStr ''b'', PInt 0)] [(PInt 0, PStr ''b'')]"
  by (simp add: instantiate_def Let_def example_externals_def kwargs_get_def kwargs_pop_def
      model_kwargs_of_def invert_dict_def items_def py_len_def exact_inverse_def)

text \<open>
  Claim C2, as the code has it. A call with a model directory, an explicit \<^verbatim>\<open>id2label\<close>
  dictionary \<open>e\<close> whose labels are hashable and pairwise different, no \<^verbatim>\<open>label2id\<close> (absent
  or \<^verbatim>\<open>None\<close>) and a directory in which the parser finds no mapping: the loader is called
  with \<^verbatim>\<open>id2label\<close> the dictionary \<open>e\<close> itself and \<^verbatim>\<open>label2id\<close> the items of \<open>e\<close> turned
  around, which is the exact inverse of \<open>e\<close>, and inverting the derived \<^verbatim>\<open>label2id\<close> again
  gives \<open>e\<close> back.
\<close>

theorem id2label_only_injective:
  assumes "kwargs_get kw ''model_dir'' PNone = md" and "md \<noteq> PNone"
    and "parse_label_mapping X md = Inr PNone"
    and "kwargs_get kw ''label2id'' PNone = PNone"
    and "map_of kw ''id2label'' = Some (PDict e)"
    and "is_dict e"
    and "list_all (\<lambda>p. hashable (snd p)) e"
    and "distinct (value_ids e)"
  shows "\<exists>mk. instantiate X kw =
                ([ParseLabelMapping md, FromPretrained md mk], from_pretrained X md mk)
           \<and> map_of mk ''label2id'' = Some (PDict (swapped e))
           \<and> map_of mk ''id2label'' = Some (PDict e)
           \<and> exact_inverse e (swapped e)
           \<and> invert_dict (PDict (swapped e)) = Inr (PDict e)"
proof -
  have inv: "invert_dict (PDict e) = Inr (PDict (swapped e))"
    using assms(7,8) by (rule invert_dict_injective)
  have "kwargs_get (kwargs_pop ''model_dir'' kw) ''label2id'' PNone = PNone"
    using assms(4) by (simp add: kwargs_get_pop)
  moreover have "map_of (kwargs_pop ''model_dir'' kw) ''id2label'' = Some (PDict e)"
    using assms(5) by (simp add: map_of_kwargs_pop)
  ultimately obtain mk where mk:
    "model_kwargs_of PNone (kwargs_pop ''model_dir'' kw) = Inr mk"
    "map_of mk ''label2id'' = Some (PDict (swapped e))"
    "map_of mk ''id2label'' = Some (PDict e)"
    using model_kwargs_of_id2label_only [OF _ _ inv] by blast
  have "instantiate X kw =
          ([ParseLabelMapping md, FromPretrained md mk], from_pretrained X md mk)"
    using assms(1-3) mk(1) by (rule instantiate_with_dir)
  moreover have "invert_dict (PDict (swapped e)) = Inr (PDict e)"
    using assms(6-8) by (rule invert_dict_round_trip)
  ultimately show ?thesis
    using mk(2,3) exact_inverse_swapped by blast
qed

text \<open>The theorem of C2 at a two-label mapping.\<close>

theorem id2label_only_injective_witness:
  "\<exists>mk. instantiate example_externals
          [(''model_dir'', PStr ''ckpt''),
           (''id2label'', PDict [(PInt 0, PStr ''O''), (PInt 1, PStr ''B-PER'')])] =
        ([ParseLabelMapping (PStr ''ckpt''), FromPretrained (PStr ''ckpt'') mk],
         Inr [''from_pretrained''])
     \<and> map_of mk ''label2id'' = Some (PDict [(PStr ''O'', PInt 0), (PStr ''B-PER'', PInt 1)])
     \<and> map_of mk ''id2label'' = Some (PDict [(PInt 0, PStr ''O''), (PInt 1, PStr ''B-PER'')])
     \<and> exact_inverse [(PInt 0, PStr ''O''), (PInt 1, PStr ''B-PER'')]
          [(PStr ''O'', PInt 0), (PStr ''B-PER'', PInt 1)]
     \<and> invert_dict (PDict [(PStr ''O'', PInt 0), (PStr ''B-PER'', PInt 1)]) =
          Inr (PDict [(PInt 0, PStr ''O''), (PInt 1, PStr ''B-PER'')])"
  using id2label_only_injective [of "[(''model_dir'', PStr ''ckpt''),
           (''id2label'', PDict [(PInt 0, PStr ''O''), (PInt 1, PStr ''B-PER'')])]"
      "PStr ''ckpt''" example_externals "[(PInt 0, PStr ''O''), (PInt 1, PStr ''B-PER'')]"]
  by (simp add: kwargs_get_def example_externals_def value_ids_def key_ids_def is_dict_def
      swapped_def)

text \<open>Claim C2 as stated, for every explicit \<^verbatim>\<open>id2label\<close>, fails when two ids share a label:
  for \<^verbatim>\<open>{0: 'a', 1: 'a'}\<close> the loader receives \<^verbatim>\<open>label2id = {'a': 1}\<close>, which is not the
  inverse of the mapping, as id 0 is lost.\<close>

theorem id2label_only_not_inverse:
  "instantiate example_externals
          [(''model_dir'', PStr ''ckpt''),
           (''id2label'', PDict [(PInt 0, PStr ''a''), (PInt 1, PStr ''a'')])] =
     ([ParseLabelMapping (PStr ''ckpt''),
      FromPretrained (PStr ''ckpt'')
        [(''num_labels'', PInt 1),
         (''label2id'', PDict [(PStr ''a'', PInt 1)]),
         (''id2label'', PDict [(PInt 0, PStr ''a''), (PInt 1, PStr ''a'')])]],
      Inr [''from_pretrained''])
   \<and> \<not> exact_inverse [(PInt 0, PStr ''a''), (PInt 1, PStr ''a'')] [(PStr ''a'', PInt 1)]"
  by (simp add: instantiate_def Let_def example_externals_def kwargs_get_def kwargs_pop_def
      model_kwargs_of_def invert_dict_def items_def py_len_def exact_inverse_def)

text \<open>
  Claim C3. For all positional and keyword arguments, \<^verbatim>\<open>forward\<close> makes exactly one
  delegated call, to the parent's \<^verbatim>\<open>forward\<close>, with the positional arguments unchanged and
  with the keyword arguments in which \<^verbatim>\<open>return_dict\<close> is \<^verbatim>\<open>True\<close>, whatever the caller
  supplied for it, and every other keyword is as the caller supplied it. Whenever the
  delegated call returns, \<^verbatim>\<open>forward\<close> returns an output object whose \<^verbatim>\<open>loss\<close>, \<^verbatim>\<open>logits\<close>,
  \<^verbatim>\<open>hidden_states\<close> and \<^verbatim>\<open>attentions\<close> are the fields of the same names of the delegated
  result.
\<close>

theorem forward_repackages:
  "fst (forward parent_forward args kw) =
     [RobertaForward args (kwargs_setitem ''return_dict'' (ABool True) kw)]
   \<and> map_of (kwargs_setitem ''return_dict'' (ABool True) kw) ''return_dict'' = Some (ABool True)
   \<and> (\<forall>k. k \<noteq> ''return_dict'' \<longrightarrow>
          map_of (kwargs_setitem ''return_dict'' (ABool True) kw) k = map_of kw k)
   \<and> (\<forall>outputs.
          parent_forward args (kwargs_setitem ''return_dict'' (ABool True) kw) = Inr outputs \<longrightarrow>
          (\<exists>r. snd (forward parent_forward args kw) = Inr r
             \<and> loss r = outputs_loss outputs
             \<and> logits r = outputs_logits outputs
             \<and> hidden_states r = outputs_hidden_states outputs
             \<and> attentions r = outputs_attentions outputs))"
  by (simp add: forward_call map_of_kwargs_setitem) (simp add: forward_def Let_def)

text \<open>The theorem of C3 at a call that passes \<^verbatim>\<open>return_dict=False\<close> and a \<^verbatim>\<open>labels\<close> tensor.\<close>

theorem forward_repackages_witness:
  "fst (forward example_parent_forward [ATensor 7]
          [(''return_dict'', ABool False), (''labels'', ATensor 9)]) =
     [RobertaForward [ATensor 7] [(''return_dict'', ABool True), (''labels'', ATensor 9)]]
   \<and> map_of (kwargs_setitem ''return_dict'' (ABool True)
          [(''return_dict'', ABool False), (''labels'', ATensor (9::nat))]) ''labels'' =
       Some (ATensor 9)
   \<and> (\<exists>r. snd (forward example_parent_forward [ATensor 7]
                 [(''return_dict'', ABool False), (''labels'', ATensor 9)]) = Inr r
         \<and> loss r = 1 \<and> logits r = 2 \<and> hidden_states r = 3 \<and> attentions r = 4)"
  using forward_repackages [of example_parent_forward "[ATensor 7]"
      "[(''return_dict'', ABool False), (''labels'', ATensor 9)]"]
  by (simp add: example_parent_forward_def)

text \<open>
  Claim C4. A call with a model directory in which the parser finds no mapping, and with
  none of \<^verbatim>\<open>label2id\<close>, \<^verbatim>\<open>id2label\<close>, \<^verbatim>\<open>num_labels\<close> supplied (absent, or \<^verbatim>\<open>None\<close>): the
  loader is called with the directory and an empty keyword set, so with none of the three
  keys, and the factory returns what the loader returns.
\<close>

theorem no_label_information:
  assumes "kwargs_get kw ''model_dir'' PNone = md" and "md \<noteq> PNone"
    and "parse_label_mapping X md = Inr PNone"
    and "kwargs_get kw ''label2id'' PNone = PNone"
    and "kwargs_get kw ''id2label'' PNone = PNone"
    and "kwargs_get kw ''num_labels'' PNone = PNone"
  shows "instantiate X kw =
           ([ParseLabelMapping md, FromPretrained md []], from_pretrained X md [])"
proof -
  have "model_kwargs_of PNone (kwargs_pop ''model_dir'' kw) = Inr []"
    using assms(4-6) by (simp add: model_kwargs_of_def kwargs_get_pop)
  with assms(1-3) show ?thesis by (rule instantiate_with_dir)
qed

text \<open>The theorem of C4 at a call that carries one unrelated keyword.\<close>

theorem no_label_information_witness:
  "instantiate example_externals [(''model_dir'', PStr ''ckpt''), (''hidden_size'', PInt 768)] =
     ([ParseLabelMapping (PStr ''ckpt''), FromPretrained (PStr ''ckpt'') []],
      Inr [''from_pretrained''])"
  using no_label_information [of "[(''model_dir'', PStr ''ckpt''), (''hidden_size'', PInt 768)]"
      "PStr ''ckpt''" example_externals]
  by (simp add: kwargs_get_def example_externals_def)

text \<open>
  Claim C5. A call with a model directory, an explicit \<^verbatim>\<open>label2id\<close> dictionary \<open>d\<close> (with
  hashable ids) and an explicit \<^verbatim>\<open>num_labels\<close> \<open>n\<close>: once the parser has returned, the loader
  is called with \<^verbatim>\<open>num_labels\<close> equal to \<open>n\<close> and \<^verbatim>\<open>label2id\<close> equal to \<open>d\<close>, whatever the
  number of items of \<open>d\<close> is.
\<close>

theorem explicit_num_labels_kept:
  assumes "kwargs_get kw ''model_dir'' PNone = md" and "md \<noteq> PNone"
    and "parse_label_mapping X md = Inr parsed"
    and "map_of kw ''label2id'' = Some (PDict d)"
    and "list_all (\<lambda>p. hashable (snd p)) d"
    and "map_of kw ''num_labels'' = Some n" and "n \<noteq> PNone"
  shows "\<exists>mk. instantiate X kw =
                ([ParseLabelMapping md, FromPretrained md mk], from_pretrained X md mk)
           \<and> map_of mk ''num_labels'' = Some n
           \<and> map_of mk ''label2id'' = Some (PDict d)"
proof -
  let ?kw = "kwargs_pop ''model_dir'' kw"
  obtain e where e: "invert_dict (PDict d) = Inr (PDict e)"
    using assms(5) by (simp add: invert_dict_def items_def swap_comprehension_fold)
  have l: "kwargs_get ?kw ''label2id'' parsed = PDict d"
    using assms(4) by (simp add: kwargs_get_Some map_of_kwargs_pop)
  have n: "kwargs_get ?kw ''num_labels'' dflt = n" for dflt
    using assms(6) by (simp add: kwargs_get_Some map_of_kwargs_pop)
  have "\<exists>mk. model_kwargs_of parsed ?kw = Inr mk
           \<and> map_of mk ''num_labels'' = Some n
           \<and> map_of mk ''label2id'' = Some (PDict d)"
    using assms(7)
    by (simp add: model_kwargs_of_def l n e py_len_def Let_def map_of_kwargs_setitem)
  then obtain mk where mk: "model_kwargs_of parsed ?kw = Inr mk"
    "map_of mk ''num_labels'' = Some n" "map_of mk ''label2id'' = Some (PDict d)"
    by blast
  have "instantiate X kw =
          ([ParseLabelMapping md, FromPretrained md mk], from_pretrained X md mk)"
    using assms(1-3) mk(1) by (rule instantiate_with_dir)
  then show ?thesis using mk(2,3) by blast
qed

text \<open>The theorem of C5 at two labels and \<^verbatim>\<open>num_labels=7\<close>.\<close>

theorem explicit_num_labels_kept_witness:
  "\<exists>mk. instantiate example_externals
          [(''model_dir'', PStr ''ckpt''),
           (''label2id'', PDict [(PStr ''O'', PInt 0), (PStr ''B-PER'', PInt 1)]),
           (''num_labels'', PInt 7)] =
        ([ParseLabelMapping (PStr ''ckpt''), FromPretrained (PStr ''ckpt'') mk],
         Inr [''from_pretrained''])
     \<and> map_of mk ''num_labels'' = Some (PInt 7)
     \<and> map_of mk ''label2id'' = Some (PDict [(PStr ''O'', PInt 0), (PStr ''B-PER'', PInt 1)])"
  using explicit_num_labels_kept [of "[(''model_dir'', PStr ''ckpt''),
           (''label2id'', PDict [(PStr ''O'', PInt 0), (PStr ''B-PER'', PInt 1)]),
           (''num_labels'', PInt 7)]"
      "PStr ''ckpt''" example_externals PNone "[(PStr ''O'', PInt 0), (PStr ''B-PER'', PInt 1)]"
      "PInt 7"]
  by (simp add: kwargs_get_def example_externals_def)

text \<open>
  Claim C6. A call without a model directory (\<^verbatim>\<open>model_dir\<close> absent or \<^verbatim>\<open>None\<close>) consults
  neither the label-mapping parser nor the checkpoint loader. It builds the configuration
  from the remaining keyword arguments alone: the items the caller supplied under a key
  other than \<^verbatim>\<open>model_dir\<close>, no more and no fewer, in the caller's order, each key with the
  value the caller gave it, and no \<^verbatim>\<open>model_dir\<close> among them (when the caller supplied no \<^verbatim>\<open>model_dir\<close>, the keyword
  arguments as they are). If the configuration class raises, the error is the result;
  otherwise the adapter is constructed on a new object from that configuration, with no
  further keyword arguments, and the result of the construction is the result of the
  factory.
\<close>

theorem no_model_dir_builds_config:
  assumes "kwargs_get kw ''model_dir'' PNone = PNone"
  shows "list_all (\<lambda>c. \<not> consults_checkpoint c) (fst (instantiate X kw))
   \<and> (\<forall>e. VecoConfig X (kwargs_pop ''model_dir'' kw) = Inl e \<longrightarrow>
          instantiate X kw = ([VecoConfigCall (kwargs_pop ''model_dir'' kw)], Inl e))
   \<and> (\<forall>config. VecoConfig X (kwargs_pop ''model_dir'' kw) = Inr config \<longrightarrow>
          instantiate X kw =
            (VecoConfigCall (kwargs_pop ''model_dir'' kw)
               # fst (veco_init X (new_object X) config []),
             snd (veco_init X (new_object X) config [])))
   \<and> ''model_dir'' \<notin> fst ` set (kwargs_pop ''model_dir'' kw)
   \<and> map_of (kwargs_pop ''model_dir'' kw) ''model_dir'' = None
   \<and> set (kwargs_pop ''model_dir'' kw) = {p \<in> set kw. fst p \<noteq> ''model_dir''}
   \<and> (\<forall>k. k \<noteq> ''model_dir'' \<longrightarrow>
          map_of (kwargs_pop ''model_dir'' kw) k = map_of kw k)
   \<and> (map_of kw ''model_dir'' = None \<longrightarrow> kwargs_pop ''model_dir'' kw = kw)
   \<and> kwargs_pop ''model_dir'' kw = filter (\<lambda>p. fst p \<noteq> ''model_dir'') kw"
proof -
  have f1: "list_all (\<lambda>c. \<not> consults_checkpoint c) (fst (instantiate X kw))"
    using veco_init_no_checkpoint [of X]
    by (simp add: instantiate_without_dir [OF assms] split: sum.splits)
  have f2: "\<forall>e. VecoConfig X (kwargs_pop ''model_dir'' kw) = Inl e \<longrightarrow>
          instantiate X kw = ([VecoConfigCall (kwargs_pop ''model_dir'' kw)], Inl e)"
    by (simp add: instantiate_without_dir [OF assms])
  have f3: "\<forall>config. VecoConfig X (kwargs_pop ''model_dir'' kw) = Inr config \<longrightarrow>
          instantiate X kw =
            (VecoConfigCall (kwargs_pop ''model_dir'' kw)
               # fst (veco_init X (new_object X) config []),
             snd (veco_init X (new_object X) config []))"
    by (simp add: instantiate_without_dir [OF assms])
  have f4: "''model_dir'' \<notin> fst ` set (kwargs_pop ''model_dir'' kw)"
    by (auto simp: set_kwargs_pop)
  have f5: "map_of (kwargs_pop ''model_dir'' kw) ''model_dir'' = None"
    using f4 by (simp add: map_of_eq_None_iff)
  have f6: "set (kwargs_pop ''model_dir'' kw) = {p \<in> set kw. fst p \<noteq> ''model_dir''}"
    by (rule set_kwargs_pop)
  have f7: "\<forall>k. k \<noteq> ''model_dir'' \<longrightarrow>
          map_of (kwargs_pop ''model_dir'' kw) k = map_of kw k"
    by (simp add: map_of_kwargs_pop)
  have f8: "map_of kw ''model_dir'' = None \<longrightarrow> kwargs_pop ''model_dir'' kw = kw"
    by (simp add: kwargs_pop_absent)
  have f9: "kwargs_pop ''model_dir'' kw = filter (\<lambda>p. fst p \<noteq> ''model_dir'') kw"
    by (simp add: kwargs_pop_def)
  show ?thesis
    by (intro conjI) (rule f1 f2 f3 f4 f5 f6 f7 f8 f9)+
qed

text \<open>
  The theorem of C6 at a call that constructs the adapter, and at a call that passes
  \<^verbatim>\<open>model_dir=None\<close> after another keyword and whose configuration is rejected: the
  configuration class receives the other keyword only.
\<close>

theorem no_model_dir_builds_config_witness:
  "list_all (\<lambda>c. \<not> consults_checkpoint c)
     (fst (instantiate example_externals
             [(''name_or_path'', PStr ''veco''), (''num_labels'', PInt 3)]))
   \<and> instantiate example_externals [(''name_or_path'', PStr ''veco''), (''num_labels'', PInt 3)] =
       ([VecoConfigCall [(''name_or_path'', PStr ''veco''), (''num_labels'', PInt 3)],
         TorchModelInit (PStr ''veco'') [],
         RobertaInit [(''name_or_path'', PStr ''veco''), (''num_labels'', PInt 3)]],
        Inr [''TorchModel'', ''RobertaForTokenClassification''])
   \<and> instantiate
        (example_externals\<lparr>VecoConfig := (\<lambda>kw. Inl (OtherError ''malformed configuration''))\<rparr>)
        [(''hidden_size'', PStr ''big''), (''model_dir'', PNone)] =
       ([VecoConfigCall [(''hidden_size'', PStr ''big'')]],
        Inl (OtherError ''malformed configuration''))
   \<and> ''model_dir'' \<notin> fst ` set (kwargs_pop ''model_dir''
                                 [(''hidden_size'', PStr ''big''), (''model_dir'', PNone)])
   \<and> map_of (kwargs_pop ''model_dir'' [(''hidden_size'', PStr ''big''), (''model_dir'', PNone)])
        ''hidden_size'' = Some (PStr ''big'')"
proof -
  let ?kw1 = "[(''name_or_path'', PStr ''veco''), (''num_labels'', PInt 3)]"
  let ?kw2 = "[(''hidden_size'', PStr ''big''), (''model_dir'', PNone)]"
  let ?X2 = "example_externals\<lparr>VecoConfig :=
               (\<lambda>kw. Inl (OtherError ''malformed configuration''))\<rparr>"
  have h1: "kwargs_get ?kw1 ''model_dir'' PNone = PNone"
    by (simp add: kwargs_get_def)
  have h2: "kwargs_get ?kw2 ''model_dir'' PNone = PNone"
    by (simp add: kwargs_get_def)
  have p1: "kwargs_pop ''model_dir'' ?kw1 = ?kw1"
    by (simp add: kwargs_pop_def)
  have p2: "kwargs_pop ''model_dir'' ?kw2 = [(''hidden_size'', PStr ''big'')]"
    by (simp add: kwargs_pop_def)
  note a = no_model_dir_builds_config [OF h1, of example_externals]
  note b = no_model_dir_builds_config [OF h2, of ?X2]
  note a3 = a [THEN conjunct2, THEN conjunct2, THEN conjunct1, rule_format]
  note b2 = b [THEN conjunct2, THEN conjunct1, rule_format]
  note b4 = b [THEN conjunct2, THEN conjunct2, THEN conjunct2, THEN conjunct1]
  note b7 = b [THEN conjunct2, THEN conjunct2, THEN conjunct2, THEN conjunct2,
      THEN conjunct2, THEN conjunct2, THEN conjunct1, rule_format]
  have c1: "list_all (\<lambda>c. \<not> consults_checkpoint c) (fst (instantiate example_externals ?kw1))"
    using a by (rule conjunct1)
  have "VecoConfig example_externals (kwargs_pop ''model_dir'' ?kw1) = Inr ?kw1"
    by (simp add: p1 example_externals_def)
  then have "instantiate example_externals ?kw1 =
       (VecoConfigCall (kwargs_pop ''model_dir'' ?kw1)
          # fst (veco_init example_externals (new_object example_externals) ?kw1 []),
        snd (veco_init example_externals (new_object example_externals) ?kw1 []))"
    by (rule a3)
  then have c2: "instantiate example_externals ?kw1 =
       ([VecoConfigCall ?kw1, TorchModelInit (PStr ''veco'') [], RobertaInit ?kw1],
        Inr [''TorchModel'', ''RobertaForTokenClassification''])"
    by (simp add: p1 veco_init_def example_externals_def)
  have "VecoConfig ?X2 (kwargs_pop ''model_dir'' ?kw2) =
          Inl (OtherError ''malformed configuration'')"
    by simp
  then have "instantiate ?X2 ?kw2 =
       ([VecoConfigCall (kwargs_pop ''model_dir'' ?kw2)],
        Inl (OtherError ''malformed configuration''))"
    by (rule b2)
  then have c3: "instantiate ?X2 ?kw2 =
       ([VecoConfigCall [(''hidden_size'', PStr ''big'')]],
        Inl (OtherError ''malformed configuration''))"
    by (simp add: p2)
  have c4: "''model_dir'' \<notin> fst ` set (kwargs_pop ''model_dir'' ?kw2)"
    by (rule b4)
  have "''hidden_size'' \<noteq> ''model_dir''"
    by simp
  then have "map_of (kwargs_pop ''model_dir'' ?kw2) ''hidden_size'' = map_of ?kw2 ''hidden_size''"
    by (rule b7)
  then have c5: "map_of (kwargs_pop ''model_dir'' ?kw2) ''hidden_size'' = Some (PStr ''big'')"
    by simp
  show ?thesis
    by (intro conjI) (rule c1 c2 c3 c4 c5)+
qed

text \<open>
  Claim C7. For a configuration whose \<^verbatim>\<open>name_or_path\<close> is defined: if the two ancestor
  initialisers accept their arguments, construction does not raise and consists of exactly
  two delegated calls in this order, the initialiser of the generic model wrapper with the
  path identifier and the keyword arguments, then the initialiser of the task-specific
  model with the whole configuration. An error of the construction is always the error of
  one of the two initialisers, and no other call is ever made.
\<close>

theorem init_two_delegations:
  assumes "name_or_path X config = Some p"
  shows "(\<forall>self1 self2.
            TorchModel_init X self p kw = Inr self1 \<and> Roberta_init X self1 config = Inr self2 \<longrightarrow>
            veco_init X self config kw =
              ([TorchModelInit p kw, RobertaInit config], Inr self2))
   \<and> (\<forall>e. snd (veco_init X self config kw) = Inl e \<longrightarrow>
          TorchModel_init X self p kw = Inl e
          \<or> (\<exists>self1. TorchModel_init X self p kw = Inr self1
                \<and> Roberta_init X self1 config = Inl e))
   \<and> (fst (veco_init X self config kw) = [TorchModelInit p kw]
        \<or> fst (veco_init X self config kw) = [TorchModelInit p kw, RobertaInit config])"
  using assms by (auto simp: veco_init_def split: sum.splits)

text \<open>The theorem of C7 at a configuration that both initialisers accept, and at one that the
  task-specific initialiser rejects.\<close>

theorem init_two_delegations_witness:
  "veco_init example_externals [] [(''name_or_path'', PStr ''veco'')] [] =
     ([TorchModelInit (PStr ''veco'') [], RobertaInit [(''name_or_path'', PStr ''veco'')]],
      Inr [''TorchModel'', ''RobertaForTokenClassification''])
   \<and> veco_init
        (example_externals\<lparr>Roberta_init := (\<lambda>self cfg. Inl (OtherError ''no hidden_size''))\<rparr>)
        [] [(''name_or_path'', PStr ''veco'')] [] =
       ([TorchModelInit (PStr ''veco'') [], RobertaInit [(''name_or_path'', PStr ''veco'')]],
        Inl (OtherError ''no hidden_size''))"
  using init_two_delegations [of example_externals "[(''name_or_path'', PStr ''veco'')]" "PStr ''veco''" "[]" "[]"]
    init_two_delegations [of "example_externals\<lparr>Roberta_init := (\<lambda>self cfg. Inl (OtherError ''no hidden_size''))\<rparr>"
      "[(''name_or_path'', PStr ''veco'')]" "PStr ''veco''" "[]" "[]"]
  by (simp add: example_externals_def veco_init_def)

text \<open>
  Claim C8. An error of a delegated call is the result, unchanged, and the failing call is
  the last call made: for the parent's \<^verbatim>\<open>forward\<close> in \<^verbatim>\<open>forward\<close>; for the label-mapping
  parser, the configuration class and the checkpoint loader in \<^verbatim>\<open>_instantiate\<close>.
\<close>

theorem errors_propagate:
  "(parent_forward args (kwargs_setitem ''return_dict'' (ABool True) fkw) = Inl e1 \<longrightarrow>
      forward parent_forward args fkw =
        ([RobertaForward args (kwargs_setitem ''return_dict'' (ABool True) fkw)], Inl e1))
   \<and> (kwargs_get kw2 ''model_dir'' PNone \<noteq> PNone
        \<and> parse_label_mapping X2 (kwargs_get kw2 ''model_dir'' PNone) = Inl e2 \<longrightarrow>
      instantiate X2 kw2 =
        ([ParseLabelMapping (kwargs_get kw2 ''model_dir'' PNone)], Inl e2))
   \<and> (kwargs_get kw3 ''model_dir'' PNone = PNone
        \<and> VecoConfig X3 (kwargs_pop ''model_dir'' kw3) = Inl e3 \<longrightarrow>
      instantiate X3 kw3 = ([VecoConfigCall (kwargs_pop ''model_dir'' kw3)], Inl e3))
   \<and> (FromPretrained d mk \<in> set (fst (instantiate X4 kw4))
        \<and> from_pretrained X4 d mk = Inl e4 \<longrightarrow>
      instantiate X4 kw4 = ([ParseLabelMapping d, FromPretrained d mk], Inl e4))"
proof -
  have "instantiate X4 kw4 = ([ParseLabelMapping d, FromPretrained d mk], Inl e4)"
    if "FromPretrained d mk \<in> set (fst (instantiate X4 kw4))"
      and "from_pretrained X4 d mk = Inl e4"
    using loader_call_is_last [OF that(1)] that(2)
    by (cases "instantiate X4 kw4") simp
  then show ?thesis
    by (simp add: forward_error instantiate_without_dir) (simp add: instantiate_def Let_def)
qed

text \<open>The theorem of C8 with each of the four collaborators failing in turn.\<close>

theorem errors_propagate_witness:
  "forward (\<lambda>args kw. Inl (OtherError ''shape mismatch'')) [ATensor (0::nat)] [] =
     ([RobertaForward [ATensor 0] [(''return_dict'', ABool True)]],
      (Inl (OtherError ''shape mismatch'') :: exn + nat AttentionTokenClassificationModelOutput))
   \<and> instantiate
        (example_externals\<lparr>parse_label_mapping := (\<lambda>d. Inl (OtherError ''malformed label file''))\<rparr>)
        [(''model_dir'', PStr ''ckpt'')] =
       ([ParseLabelMapping (PStr ''ckpt'')], Inl (OtherError ''malformed label file''))
   \<and> instantiate
        (example_externals\<lparr>VecoConfig := (\<lambda>kw. Inl (OtherError ''malformed configuration''))\<rparr>)
        [(''hidden_size'', PStr ''big'')] =
       ([VecoConfigCall [(''hidden_size'', PStr ''big'')]], Inl (OtherError ''malformed configuration''))
   \<and> instantiate
        (example_externals\<lparr>from_pretrained := (\<lambda>d kw. Inl (OtherError ''missing checkpoint''))\<rparr>)
        [(''model_dir'', PStr ''nowhere'')] =
       ([ParseLabelMapping (PStr ''nowhere''), FromPretrained (PStr ''nowhere'') []],
        Inl (OtherError ''missing checkpoint''))"
  using errors_propagate [of "\<lambda>args kw. Inl (OtherError ''shape mismatch'')" "[ATensor (0::nat)]" "[]"
      "OtherError ''shape mismatch''"
      "[(''model_dir'', PStr ''ckpt'')]"
      "example_externals\<lparr>parse_label_mapping := (\<lambda>d. Inl (OtherError ''malformed label file''))\<rparr>"
      "OtherError ''malformed label file''"
      "[(''hidden_size'', PStr ''big'')]"
      "example_externals\<lparr>VecoConfig := (\<lambda>kw. Inl (OtherError ''malformed configuration''))\<rparr>"
      "OtherError ''malformed configuration''"
      "PStr ''nowhere''" "[]"
      "example_externals\<lparr>from_pretrained := (\<lambda>d kw. Inl (OtherError ''missing checkpoint''))\<rparr>"
      "[(''model_dir'', PStr ''nowhere'')]"
      "OtherError ''missing checkpoint''"]
  by (simp add: kwargs_get_def kwargs_pop_def example_externals_def instantiate_def
      model_kwargs_of_def Let_def)

text \<open>
  Claim C9. With \<^verbatim>\<open>label2id\<close> among the keyword arguments, two runs whose parsers both
  return, whatever they return, make the same calls with the same arguments and yield the
  same result; the keyword set computed for the loader is the same for both parse results.
\<close>

theorem explicit_label2id_ignores_parser:
  assumes "map_of kw ''label2id'' = Some l"
    and "parse_label_mapping X (kwargs_get kw ''model_dir'' PNone) = Inr p"
    and "f (kwargs_get kw ''model_dir'' PNone) = Inr p'"
  shows "instantiate (X\<lparr>parse_label_mapping := f\<rparr>) kw = instantiate X kw
         \<and> model_kwargs_of p' (kwargs_pop ''model_dir'' kw) =
             model_kwargs_of p (kwargs_pop ''model_dir'' kw)"
proof -
  have "map_of (kwargs_pop ''model_dir'' kw) ''label2id'' = Some l"
    using assms(1) by (simp add: map_of_kwargs_pop)
  then have eq: "model_kwargs_of p' (kwargs_pop ''model_dir'' kw) =
             model_kwargs_of p (kwargs_pop ''model_dir'' kw)"
    by (rule model_kwargs_of_explicit_label2id)
  have "instantiate (X\<lparr>parse_label_mapping := f\<rparr>) kw = instantiate X kw"
    using assms(2,3) eq
    by (simp add: instantiate_def veco_init_def Let_def split: sum.splits option.splits)
  with eq show ?thesis by simp
qed

text \<open>The theorem of C9 for a directory with a three-label mapping against one with no mapping.\<close>

theorem explicit_label2id_ignores_parser_witness:
  "instantiate
     (example_externals\<lparr>parse_label_mapping :=
        (\<lambda>d. Inr (PDict [(PStr ''X'', PInt 0), (PStr ''Y'', PInt 1), (PStr ''Z'', PInt 2)]))\<rparr>)
     [(''model_dir'', PStr ''ckpt''), (''label2id'', PDict [(PStr ''O'', PInt 0)])] =
   instantiate example_externals
     [(''model_dir'', PStr ''ckpt''), (''label2id'', PDict [(PStr ''O'', PInt 0)])]
   \<and> model_kwargs_of (PDict [(PStr ''X'', PInt 0), (PStr ''Y'', PInt 1), (PStr ''Z'', PInt 2)])
       [(''label2id'', PDict [(PStr ''O'', PInt 0)])] =
     model_kwargs_of PNone [(''label2id'', PDict [(PStr ''O'', PInt 0)])]"
  using explicit_label2id_ignores_parser [of "[(''model_dir'', PStr ''ckpt''), (''label2id'', PDict [(PStr ''O'', PInt 0)])]"
      "PDict [(PStr ''O'', PInt 0)]" example_externals PNone
      "\<lambda>d. Inr (PDict [(PStr ''X'', PInt 0), (PStr ''Y'', PInt 1), (PStr ''Z'', PInt 2)])"
      "PDict [(PStr ''X'', PInt 0), (PStr ''Y'', PInt 1), (PStr ''Z'', PInt 2)]"]
  by (simp add: kwargs_get_def kwargs_pop_def example_externals_def)

text \<open>
  Claim C10. A call with a model directory, an explicit \<^verbatim>\<open>label2id\<close> dictionary \<open>d\<close> with
  hashable ids of which two are equal, and neither \<^verbatim>\<open>id2label\<close> nor \<^verbatim>\<open>num_labels\<close> among the
  keyword arguments: once the parser has returned, the loader is called with \<^verbatim>\<open>num_labels\<close>
  the number of items of \<open>d\<close> and with an \<^verbatim>\<open>id2label\<close> dictionary \<open>e\<close> that has one item for
  each different id of \<open>d\<close>, maps every id to the label of the last item of \<open>d\<close> with that
  id, and has fewer items than \<open>d\<close>.
\<close>

theorem duplicate_ids_last_label_wins:
  assumes "kwargs_get kw ''model_dir'' PNone = md" and "md \<noteq> PNone"
    and "parse_label_mapping X md = Inr parsed"
    and "map_of kw ''label2id'' = Some (PDict d)"
    and "map_of kw ''id2label'' = None"
    and "map_of kw ''num_labels'' = None"
    and "list_all (\<lambda>p. hashable (snd p)) d"
    and "\<not> distinct (value_ids d)"
  shows "\<exists>e. instantiate X kw =
               ([ParseLabelMapping md,
                 FromPretrained md
                   [(''num_labels'', PInt (int (length d))), (''label2id'', PDict d),
                    (''id2label'', PDict e)]],
                from_pretrained X md
                   [(''num_labels'', PInt (int (length d))), (''label2id'', PDict d),
                    (''id2label'', PDict e)])
           \<and> distinct (key_ids e)
           \<and> set (key_ids e) = set (value_ids d)
           \<and> (\<forall>i. dict_get e i = last_label_of i d)
           \<and> length e < length d"
proof -
  define e where "e = fold (\<lambda>p. dict_setitem (snd p) (fst p)) d []"
  have inv: "invert_dict (PDict d) = Inr (PDict e)"
    using assms(7) by (simp add: invert_dict_def items_def swap_comprehension_fold e_def)
  then have "model_kwargs_of parsed (kwargs_pop ''model_dir'' kw) =
     Inr [(''num_labels'', PInt (int (length d))), (''label2id'', PDict d),
          (''id2label'', PDict e)]"
    using assms(4-6) by (intro model_kwargs_of_label2id_only) (simp_all add: map_of_kwargs_pop)
  with assms(1-3) have call: "instantiate X kw =
               ([ParseLabelMapping md,
                 FromPretrained md
                   [(''num_labels'', PInt (int (length d))), (''label2id'', PDict d),
                    (''id2label'', PDict e)]],
                from_pretrained X md
                   [(''num_labels'', PInt (int (length d))), (''label2id'', PDict d),
                    (''id2label'', PDict e)])"
    by (rule instantiate_with_dir)
  have dist: "distinct (key_ids e)"
    unfolding e_def by (rule distinct_key_ids_fold) (simp add: key_ids_def)
  have keys: "set (key_ids e) = set (value_ids d)"
    unfolding e_def set_key_ids_fold by (simp add: key_ids_def)
  have get: "dict_get e i = last_label_of i d" for i
  proof -
    have "dict_get e i =
            (case last_label_of i d of Some l \<Rightarrow> Some l | None \<Rightarrow> dict_get [] i)"
      unfolding e_def by (rule dict_get_fold)
    then show ?thesis by (simp add: dict_get_def split: option.splits)
  qed
  have "length e < length d"
    using dist keys assms(8) by (rule fewer_keys_than_items)
  with call dist keys get show ?thesis by blast
qed

text \<open>The theorem of C10 at three labels, the first and the third sharing id 0.\<close>

theorem duplicate_ids_last_label_wins_witness:
  "\<exists>e. instantiate example_externals
          [(''model_dir'', PStr ''ckpt''),
           (''label2id'', PDict [(PStr ''a'', PInt 0), (PStr ''b'', PInt 1), (PStr ''c'', PInt 0)])] =
        ([ParseLabelMapping (PStr ''ckpt''),
          FromPretrained (PStr ''ckpt'')
            [(''num_labels'', PInt 3),
             (''label2id'', PDict [(PStr ''a'', PInt 0), (PStr ''b'', PInt 1), (PStr ''c'', PInt 0)]),
             (''id2label'', PDict e)]],
         Inr [''from_pretrained''])
     \<and> distinct (key_ids e)
     \<and> set (key_ids e) = {PInt 0, PInt 1}
     \<and> (\<forall>i. dict_get e i =
            last_label_of i [(PStr ''a'', PInt 0), (PStr ''b'', PInt 1), (PStr ''c'', PInt 0)])
     \<and> length e < 3"
  using duplicate_ids_last_label_wins [of "[(''model_dir'', PStr ''ckpt''),
           (''label2id'', PDict [(PStr ''a'', PInt 0), (PStr ''b'', PInt 1), (PStr ''c'', PInt 0)])]"
      "PStr ''ckpt''" example_externals PNone
      "[(PStr ''a'', PInt 0), (PStr ''b'', PInt 1), (PStr ''c'', PInt 0)]"]
  by (simp add: kwargs_get_def example_externals_def value_ids_def insert_commute
      numeral_3_eq_3)

end
